theory Spec2Isabelle
  imports Main
begin

section \<open>The demo program of src/main.c\<close>

text \<open>
  The repository holds one program, \<^verbatim>\<open>main\<close> of \<^verbatim>\<open>src/main.c\<close>. It opens the
  symbol table of the running process with \<^verbatim>\<open>dlopen(NULL, RTLD_LAZY)\<close>, resolves
  \<^verbatim>\<open>malloc\<close>, \<^verbatim>\<open>printf\<close> and \<^verbatim>\<open>free\<close> with \<^verbatim>\<open>dlsym\<close>, and calls the three
  addresses through function pointers.

  The loader functions (\<^verbatim>\<open>dlopen\<close>, \<^verbatim>\<open>dlsym\<close>, \<^verbatim>\<open>dlerror\<close>) belong to the
  platform's C library, not to the repository. The model takes them as a parameter: a
  record that says what each call returns. Every theorem below that quantifies over this
  record holds for every behaviour of the platform.
\<close>

subsection \<open>Values\<close>

text \<open>A \<^verbatim>\<open>void *\<close>: the null pointer or an address. The program only ever compares
  a pointer with null, stores it, passes it on or calls it.\<close>

datatype ptr = NULL | Addr nat

text \<open>The binding flags named in the comments of lines 6 and 7; the program uses
  \<^verbatim>\<open>RTLD_LAZY\<close>.\<close>

datatype rtld_flag = RTLD_LAZY | RTLD_NOW

text \<open>The two exit statuses of \<^verbatim>\<open>stdlib.h\<close>. They reach \<^verbatim>\<open>main.c\<close> through the header
  \<^verbatim>\<open>dlopen.h\<close>, which is not among the sources; the model keeps them symbolic and
  distinct.\<close>

datatype exit_status = EXIT_SUCCESS | EXIT_FAILURE

subsection \<open>The platform\<close>

text \<open>
  What the C library answers to the program:
  \<^item> \<open>dlopen path flag\<close>: the handle, \<open>NULL\<close> on failure; the path \<open>None\<close> is the C
    null pointer, which asks for the running process itself;
  \<^item> \<open>dlsym handle name\<close>: the address of the symbol, \<open>NULL\<close> when it is not found;
  \<^item> \<open>dlerror\<close>: what the one \<^verbatim>\<open>dlerror()\<close> call of the program returns: a diagnostic
    string, or \<open>None\<close> (a null \<^verbatim>\<open>char *\<close>) when the loader has nothing to report;
  \<^item> \<open>call_malloc f n\<close>: the pointer that the code at the non-null address \<open>f\<close> returns
    when it is called with \<^verbatim>\<open>malloc\<close>'s signature and the argument \<open>n\<close>.
  The program makes each of these calls at most once with the same arguments, so a record
  of answers loses nothing against a stateful loader.
\<close>

record platform =
  dlopen :: "string option \<Rightarrow> rtld_flag \<Rightarrow> ptr"
  dlsym :: "ptr \<Rightarrow> string \<Rightarrow> ptr"
  dlerror :: "string option"
  call_malloc :: "ptr \<Rightarrow> nat \<Rightarrow> ptr"

subsection \<open>Observable events\<close>

text \<open>The calls made through the three function pointers, with their arguments.\<close>

datatype invocation =
    Printf string "string option"
  | Malloc nat
  | Free ptr

text \<open>
  One event per call that leaves \<^verbatim>\<open>main\<close>, in program order. A loader event carries the
  arguments and the result of the call. \<open>Dlclose\<close> is the release of a handle: the
  program never emits it, the claims about closing are stated with it. \<open>Call f c\<close> is the
  call of the function pointer \<open>f\<close>; it is recorded when the call is made, also when \<open>f\<close>
  is null.
\<close>

datatype event =
    Dlopen "string option" rtld_flag ptr
  | Dlsym ptr string ptr
  | Dlerror "string option"
  | Dlclose ptr
  | Call ptr invocation

text \<open>
  How an execution ends: \<^verbatim>\<open>main\<close> returns a status, or it calls a null function
  pointer. The latter is undefined behaviour in C (in practice the process is killed by a
  signal); \<^verbatim>\<open>main\<close> does not return from it.
\<close>

datatype outcome = Returned exit_status | NullCall

subsection \<open>main\<close>

text \<open>The format string of line 25, \<^verbatim>\<open>"Hello, World!\n%s\n"\<close>.\<close>

definition hello_format :: string where
  "hello_format = ''Hello, World!'' @ [CHR 0x0A] @ ''%s'' @ [CHR 0x0A]"

text \<open>
  \<^verbatim>\<open>main\<close>, line by line. The result is the outcome and the events in program order.
  \<^item> line 9: \<open>libc_handler\<close> is the result of \<^verbatim>\<open>dlopen(NULL, RTLD_LAZY)\<close>;
  \<^item> lines 14 and 15: a null handle returns \<open>EXIT_FAILURE\<close> at once;
  \<^item> lines 17 to 19: the three \<^verbatim>\<open>dlsym\<close> results are stored in \<open>libc_symbols\<close>,
    unchecked. The array of line 12 is written at all three indices before any is read,
    so its indeterminate first content never reaches the program;
  \<^item> lines 21 to 23: the function pointers are read back from the array;
  \<^item> line 25: the argument \<^verbatim>\<open>dlerror()\<close> is evaluated, then \<open>printf\<close> is called;
  \<^item> line 26: \<open>malloc\<close> is called with 3; line 28: \<open>free\<close> is called with the result;
  \<^item> line 29: \<open>EXIT_SUCCESS\<close>.
  A call through a function pointer that is \<open>NULL\<close> ends the execution with \<open>NullCall\<close>;
  a call through a non-null address returns to the caller (the address \<^verbatim>\<open>dlsym\<close> gave
  for a name is taken to be a function that returns, as the three C library functions do).
\<close>

definition main :: "platform \<Rightarrow> outcome \<times> event list" where
  "main pf =
    (let libc_handler = dlopen pf None RTLD_LAZY;
         tr = [Dlopen None RTLD_LAZY libc_handler]
     in if libc_handler = NULL then (Returned EXIT_FAILURE, tr)
        else
          (let s0 = dlsym pf libc_handler ''malloc'';
               s1 = dlsym pf libc_handler ''printf'';
               s2 = dlsym pf libc_handler ''free'';
               libc_symbols = [s0, s1, s2];
               tr = tr @ [Dlsym libc_handler ''malloc'' s0,
                          Dlsym libc_handler ''printf'' s1,
                          Dlsym libc_handler ''free'' s2];
               malloc = libc_symbols ! 0;
               printf = libc_symbols ! 1;
               free = libc_symbols ! 2;
               diag = dlerror pf;
               tr = tr @ [Dlerror diag, Call printf (Printf hello_format diag)]
           in if printf = NULL then (NullCall, tr)
              else
                (let tr = tr @ [Call malloc (Malloc 3)]
                 in if malloc = NULL then (NullCall, tr)
                    else
                      (let a = call_malloc pf malloc 3;
                           tr = tr @ [Call free (Free a)]
                       in if free = NULL then (NullCall, tr)
                          else (Returned EXIT_SUCCESS, tr)))))"

section \<open>Properties of a run\<close>

text \<open>
  The claims speak of failed calls, of the life cycle of a handle, and of what happens
  while a handle is open. The functions of this section read these notions off the
  events of a run; all of them compute.
\<close>

subsection \<open>Kinds of events\<close>

text \<open>A loader call failed: \<^verbatim>\<open>dlopen\<close> or \<^verbatim>\<open>dlsym\<close> returned the null pointer.\<close>

fun failed :: "event \<Rightarrow> bool" where
  "failed (Dlopen p m r) = (r = NULL)"
| "failed (Dlsym h n r) = (r = NULL)"
| "failed e = False"

fun is_dlsym :: "event \<Rightarrow> bool" where
  "is_dlsym (Dlsym h n r) = True"
| "is_dlsym e = False"

fun is_dlerror :: "event \<Rightarrow> bool" where
  "is_dlerror (Dlerror d) = True"
| "is_dlerror e = False"

fun is_dlclose :: "event \<Rightarrow> bool" where
  "is_dlclose (Dlclose h) = True"
| "is_dlclose e = False"

fun is_call :: "event \<Rightarrow> bool" where
  "is_call (Call f c) = True"
| "is_call e = False"

text \<open>A loader operation: every event but the call of a function pointer.\<close>

definition is_loader_op :: "event \<Rightarrow> bool" where
  "is_loader_op e = (\<not> is_call e)"

text \<open>The function pointer of a call is not null (true of every other event).\<close>

fun call_non_null :: "event \<Rightarrow> bool" where
  "call_non_null (Call f c) = (f \<noteq> NULL)"
| "call_non_null e = True"

text \<open>The handle a \<^verbatim>\<open>dlsym\<close> call was made on.\<close>

fun resolved_on :: "event list \<Rightarrow> ptr list" where
  "resolved_on [] = []"
| "resolved_on (Dlsym h n r # es) = h # resolved_on es"
| "resolved_on (e # es) = resolved_on es"

text \<open>The results of the \<^verbatim>\<open>dlsym\<close> calls, and the function pointers that were called.\<close>

fun resolve_results :: "event list \<Rightarrow> ptr list" where
  "resolve_results [] = []"
| "resolve_results (Dlsym h n r # es) = r # resolve_results es"
| "resolve_results (e # es) = resolve_results es"

fun call_targets :: "event list \<Rightarrow> ptr list" where
  "call_targets [] = []"
| "call_targets (Call f c # es) = f # call_targets es"
| "call_targets (e # es) = call_targets es"

subsection \<open>The life cycle of a handle\<close>

text \<open>
  The state machine of a handle: \<open>Unopened\<close>, \<open>Open\<close> once a \<^verbatim>\<open>dlopen\<close> has returned it
  (a null result opens nothing), \<open>Closed\<close> once it has been released; nothing leaves
  \<open>Closed\<close>.
\<close>

datatype handle_state = Unopened | Open | Closed

fun handle_step :: "ptr \<Rightarrow> handle_state \<Rightarrow> event \<Rightarrow> handle_state" where
  "handle_step h Unopened (Dlopen p m r) = (if r = h \<and> r \<noteq> NULL then Open else Unopened)"
| "handle_step h Open (Dlclose x) = (if x = h then Closed else Open)"
| "handle_step h s e = s"

definition handle_state_after :: "ptr \<Rightarrow> event list \<Rightarrow> handle_state" where
  "handle_state_after h tr = foldl (handle_step h) Unopened tr"

text \<open>The handles that successful \<^verbatim>\<open>dlopen\<close> calls returned, and how often a handle
  was released.\<close>

fun opened_handles :: "event list \<Rightarrow> ptr list" where
  "opened_handles [] = []"
| "opened_handles (Dlopen p m r # es) =
     (if r = NULL then opened_handles es else r # opened_handles es)"
| "opened_handles (e # es) = opened_handles es"

fun closes :: "ptr \<Rightarrow> event list \<Rightarrow> nat" where
  "closes h [] = 0"
| "closes h (Dlclose x # es) = (if x = h then Suc (closes h es) else closes h es)"
| "closes h (e # es) = closes h es"

text \<open>Every handle that was opened is released exactly once by the end of the run.\<close>

definition closed_exactly_once :: "event list \<Rightarrow> bool" where
  "closed_exactly_once tr = list_all (\<lambda>h. closes h tr = 1) (opened_handles tr)"

subsection \<open>Ordering\<close>

text \<open>
  \<open>diag_in_error_branch b tr\<close>: every \<^verbatim>\<open>dlerror\<close> call of \<open>tr\<close> comes right after a
  failed loader call, with no event in between; \<open>b\<close> says whether the event before \<open>tr\<close>
  was a failed loader call.
\<close>

fun diag_in_error_branch :: "bool \<Rightarrow> event list \<Rightarrow> bool" where
  "diag_in_error_branch b [] = True"
| "diag_in_error_branch b (Dlerror d # es) = (b \<and> diag_in_error_branch False es)"
| "diag_in_error_branch b (e # es) = diag_in_error_branch (failed e) es"

text \<open>
  \<open>resolves_while_open h s tr\<close>: started with the handle \<open>h\<close> in state \<open>s\<close>, every
  \<^verbatim>\<open>dlsym\<close> on \<open>h\<close> in \<open>tr\<close> happens while \<open>h\<close> is \<open>Open\<close>: after the \<^verbatim>\<open>dlopen\<close> that
  returned it, and before its release.
\<close>

fun resolves_while_open :: "ptr \<Rightarrow> handle_state \<Rightarrow> event list \<Rightarrow> bool" where
  "resolves_while_open h s [] = True"
| "resolves_while_open h s (Dlsym x n r # es) =
     ((x = h \<longrightarrow> s = Open) \<and> resolves_while_open h (handle_step h s (Dlsym x n r)) es)"
| "resolves_while_open h s (e # es) = resolves_while_open h (handle_step h s e) es"

text \<open>
  \<open>owner_open past f\<close>: the pointer \<open>f\<close> is the result of a \<^verbatim>\<open>dlsym\<close> call of \<open>past\<close>,
  and every handle it was resolved from is \<open>Open\<close> at the end of \<open>past\<close>.
  \<open>calls_while_open past tr\<close>: this holds at every call of a function pointer in \<open>tr\<close>,
  where \<open>past\<close> holds the events before \<open>tr\<close>.
\<close>

fun owned_by_open :: "event list \<Rightarrow> ptr \<Rightarrow> event \<Rightarrow> bool" where
  "owned_by_open past f (Dlsym h n r) = (r = f \<longrightarrow> handle_state_after h past = Open)"
| "owned_by_open past f e = True"

fun resolved_as :: "ptr \<Rightarrow> event \<Rightarrow> bool" where
  "resolved_as f (Dlsym h n r) = (r = f)"
| "resolved_as f e = False"

definition owner_open :: "event list \<Rightarrow> ptr \<Rightarrow> bool" where
  "owner_open past f = (list_ex (resolved_as f) past \<and> list_all (owned_by_open past f) past)"

fun calls_while_open :: "event list \<Rightarrow> event list \<Rightarrow> bool" where
  "calls_while_open past [] = True"
| "calls_while_open past (Call f c # es) =
     (owner_open past f \<and> calls_while_open (past @ [Call f c]) es)"
| "calls_while_open past (e # es) = calls_while_open (past @ [e]) es"

section \<open>Concrete platforms\<close>

text \<open>
  Platforms on which the theorems are run. \<open>libc_present\<close> opens the running process as
  the handle \<open>Addr 1\<close> and knows the three symbols. \<open>libc_without name\<close> is the same
  platform with \<open>name\<close> missing from the symbol table (a statically linked C library
  exports nothing to \<^verbatim>\<open>dlsym\<close>). On \<open>no_loader\<close> the \<^verbatim>\<open>dlopen\<close> call fails.
\<close>

definition libc_addr :: "string \<Rightarrow> ptr" where
  "libc_addr name =
     (if name = ''malloc'' then Addr 10
      else if name = ''printf'' then Addr 11
      else if name = ''free'' then Addr 12
      else NULL)"

definition libc_present :: platform where
  "libc_present =
     \<lparr>dlopen = (\<lambda>path flag. if path = None then Addr 1 else NULL),
      dlsym = (\<lambda>h name. if h = Addr 1 then libc_addr name else NULL),
      dlerror = None,
      call_malloc = (\<lambda>f n. Addr 100)\<rparr>"

definition libc_without :: "string \<Rightarrow> platform" where
  "libc_without missing =
     libc_present
       \<lparr>dlsym := (\<lambda>h name. if name = missing then NULL else dlsym libc_present h name),
        dlerror := Some (''undefined symbol: '' @ missing)\<rparr>"

definition no_loader :: platform where
  "no_loader =
     libc_present\<lparr>dlopen := (\<lambda>path flag. NULL), dlerror := Some ''cannot open''\<rparr>"

section \<open>The platform's Open\<close>

text \<open>
  \<^verbatim>\<open>main.c\<close> calls \<^verbatim>\<open>dlopen\<close> and does not contain it. What decides whether an Open
  fails is therefore taken from the specification (section 4.1, Open), not from the
  sources. The definitions of this section are the only ones that are not read off
  \<^verbatim>\<open>main.c\<close>.
\<close>

text \<open>Modelled from the spec: the \<open>mode\<close> argument of Open, which the platform's
  \<^verbatim>\<open>dlopen\<close> (not among the sources) receives. \<open>EAGER\<close> resolves all undefined symbols
  immediately and fails fast on an unresolved reference; \<open>LAZY\<close> defers resolution until
  first use.\<close>

datatype open_mode = EAGER | LAZY

text \<open>Modelled from the spec: the \<open>path_or_self\<close> argument of Open, which the platform's
  \<^verbatim>\<open>dlopen\<close> (not among the sources) receives: a filesystem path to a shared object, or
  the sentinel for the current process's own symbol table.\<close>

datatype target = Self | Path string

text \<open>Modelled from the spec: what the platform's loader (not among the sources) finds at
  a target: whether it is a valid shared object for the platform, the references it
  leaves unresolved, and the opaque underlying handle a successful Open gives out for
  it.\<close>

record object_file =
  valid_shared_object :: bool
  unresolved_dependencies :: "string list"
  underlying :: nat

text \<open>Modelled from the spec: the targets the platform's loader (not among the sources)
  can find; \<open>None\<close> is a target that cannot be found.\<close>

type_synonym installation = "target \<Rightarrow> object_file option"

text \<open>Modelled from the spec: the failure of Open (section 7), which the platform's
  \<^verbatim>\<open>dlopen\<close> (not among the sources) reports.\<close>

datatype load_error = LoadError

text \<open>Modelled from the spec: the value a successful Open of the platform's \<^verbatim>\<open>dlopen\<close>
  (not among the sources) returns (section 3): the opaque underlying handle, the source
  it was opened from and the open mode.\<close>

record LibraryHandle =
  handle_token :: nat
  source :: target
  mode :: open_mode

text \<open>Modelled from the spec: Open, the open-by-path primitive of the platform
  (\<^verbatim>\<open>dlopen\<close>, not among the sources). It returns a \<open>LibraryHandle\<close> on success, and
  fails with \<open>LoadError\<close> when the target cannot be found, is not a valid shared object
  for the platform, or has unresolved dependencies under \<open>EAGER\<close> mode. (The constant is
  named \<open>Open_target\<close>: \<open>Open\<close> is the state of a handle above.)\<close>

definition Open_target :: "installation \<Rightarrow> target \<Rightarrow> open_mode \<Rightarrow> load_error + LibraryHandle" where
  "Open_target inst t m =
     (case inst t of
        None \<Rightarrow> Inl LoadError
      | Some f \<Rightarrow>
          if \<not> valid_shared_object f then Inl LoadError
          else if m = EAGER \<and> unresolved_dependencies f \<noteq> [] then Inl LoadError
          else Inr \<lparr>handle_token = underlying f, source = t, mode = m\<rparr>)"

text \<open>Modelled from the spec: the three causes of a failed Open of the platform's
  \<^verbatim>\<open>dlopen\<close> (not among the sources), each as a condition on the installation.\<close>

definition cannot_be_found :: "installation \<Rightarrow> target \<Rightarrow> bool" where
  "cannot_be_found inst t = (inst t = None)"

definition not_a_shared_object :: "installation \<Rightarrow> target \<Rightarrow> bool" where
  "not_a_shared_object inst t =
     (case inst t of None \<Rightarrow> False | Some f \<Rightarrow> \<not> valid_shared_object f)"

definition unresolved_under_eager :: "installation \<Rightarrow> target \<Rightarrow> open_mode \<Rightarrow> bool" where
  "unresolved_under_eager inst t m =
     (m = EAGER \<and> (case inst t of None \<Rightarrow> False | Some f \<Rightarrow> unresolved_dependencies f \<noteq> []))"

text \<open>
  Modelled from the spec: how the C call of line 9 reaches Open, since the platform's
  \<^verbatim>\<open>dlopen\<close> is not among the sources. A null path is the sentinel for the current
  process; \<^verbatim>\<open>RTLD_NOW\<close> resolves all symbols immediately and \<^verbatim>\<open>RTLD_LAZY\<close> when needed (so
  say the comments of lines 6 and 7); a failed Open is the null pointer, a handle is the
  address of its underlying token.
\<close>

definition target_of :: "string option \<Rightarrow> target" where
  "target_of path = (case path of None \<Rightarrow> Self | Some p \<Rightarrow> Path p)"

definition mode_of :: "rtld_flag \<Rightarrow> open_mode" where
  "mode_of flag = (case flag of RTLD_NOW \<Rightarrow> EAGER | RTLD_LAZY \<Rightarrow> LAZY)"

definition dlopen_of :: "installation \<Rightarrow> string option \<Rightarrow> rtld_flag \<Rightarrow> ptr" where
  "dlopen_of inst path flag =
     (case Open_target inst (target_of path) (mode_of flag) of
        Inl e \<Rightarrow> NULL
      | Inr h \<Rightarrow> Addr (handle_token h))"

text \<open>
  Two installations. In \<open>installed\<close> the running process is a valid object that opens as
  token 1, \<^verbatim>\<open>./dynlib/libdynlib.so\<close> is a valid shared object with one unresolved
  reference, \<^verbatim>\<open>README.md\<close> is a file that is not a shared object, and nothing else exists
  (so \<^verbatim>\<open>/no/such/library.so\<close> cannot be found). In \<open>no_self\<close> the running process
  cannot be opened either.
\<close>

definition installed :: installation where
  "installed t =
     (if t = Self then
        Some \<lparr>valid_shared_object = True, unresolved_dependencies = [], underlying = 1\<rparr>
      else if t = Path ''./dynlib/libdynlib.so'' then
        Some \<lparr>valid_shared_object = True, unresolved_dependencies = [''helper''],
              underlying = 2\<rparr>
      else if t = Path ''README.md'' then
        Some \<lparr>valid_shared_object = False, unresolved_dependencies = [], underlying = 3\<rparr>
      else None)"

definition no_self :: installation where
  "no_self t = (if t = Self then None else installed t)"

section \<open>The runs of main\<close>

text \<open>
  \<^verbatim>\<open>main\<close> has no loop and four tests, so its runs can be written out: one run when
  \<^verbatim>\<open>dlopen\<close> fails, and otherwise a run that is cut short at the first null function
  pointer.
\<close>

lemma main_failure:
  "dlopen pf None RTLD_LAZY = NULL \<Longrightarrow>
   main pf = (Returned EXIT_FAILURE, [Dlopen None RTLD_LAZY NULL])"
  by (simp add: main_def)

lemma main_events:
  "dlopen pf None RTLD_LAZY = h \<Longrightarrow> h \<noteq> NULL \<Longrightarrow>
   dlsym pf h ''malloc'' = s0 \<Longrightarrow> dlsym pf h ''printf'' = s1 \<Longrightarrow> dlsym pf h ''free'' = s2 \<Longrightarrow>
   snd (main pf) =
     [Dlopen None RTLD_LAZY h, Dlsym h ''malloc'' s0, Dlsym h ''printf'' s1, Dlsym h ''free'' s2,
      Dlerror (dlerror pf), Call s1 (Printf hello_format (dlerror pf))]
     @ (if s1 = NULL then []
        else Call s0 (Malloc 3)
             # (if s0 = NULL then [] else [Call s2 (Free (call_malloc pf s0 3))]))"
  by (simp add: main_def Let_def)

lemma main_outcome:
  "dlopen pf None RTLD_LAZY = h \<Longrightarrow> h \<noteq> NULL \<Longrightarrow>
   fst (main pf) =
     (if dlsym pf h ''printf'' = NULL \<or> dlsym pf h ''malloc'' = NULL \<or> dlsym pf h ''free'' = NULL
      then NullCall else Returned EXIT_SUCCESS)"
  by (simp add: main_def Let_def)

text \<open>No run releases a handle: \<^verbatim>\<open>main.c\<close> has no call of \<^verbatim>\<open>dlclose\<close>.\<close>

lemma main_no_dlclose: "closes h (snd (main pf)) = 0"
  by (simp add: main_def Let_def)

lemma main_no_dlclose_event: "filter is_dlclose (snd (main pf)) = []"
  by (simp add: main_def Let_def)

lemmas platforms = libc_present_def libc_without_def no_loader_def libc_addr_def

section \<open>The handle is never released\<close>

text \<open>
  Claim C1: in every execution the handle that a successful \<^verbatim>\<open>dlopen\<close> returned is closed
  exactly once before the program exits.

  The program does not do this. On \<open>libc_present\<close>, the ordinary run in which the handle
  \<open>Addr 1\<close> is opened and all three symbols resolve, \<^verbatim>\<open>main\<close> returns \<open>EXIT_SUCCESS\<close> and
  the handle has been released zero times: \<open>closed_exactly_once\<close> is false of the run.
\<close>

theorem handle_never_closed:
  "fst (main libc_present) = Returned EXIT_SUCCESS
   \<and> opened_handles (snd (main libc_present)) = [Addr 1]
   \<and> closes (Addr 1) (snd (main libc_present)) = 0
   \<and> \<not> closed_exactly_once (snd (main libc_present))"
proof -
  have run: "main libc_present =
      (Returned EXIT_SUCCESS,
       [Dlopen None RTLD_LAZY (Addr 1),
        Dlsym (Addr 1) ''malloc'' (Addr 10),
        Dlsym (Addr 1) ''printf'' (Addr 11),
        Dlsym (Addr 1) ''free'' (Addr 12),
        Dlerror None,
        Call (Addr 11) (Printf hello_format None),
        Call (Addr 10) (Malloc 3),
        Call (Addr 12) (Free (Addr 100))])"
    by (simp add: main_def Let_def platforms)
  show ?thesis
    unfolding run by (simp add: closed_exactly_once_def)
qed

section \<open>The diagnostic is read on the success path\<close>

text \<open>
  Where the runs read the diagnostic: never when \<^verbatim>\<open>dlopen\<close> fails (lines 14 and 15
  return without it), and otherwise once, as the fifth event, whatever the three
  \<^verbatim>\<open>dlsym\<close> calls returned (line 25 has no condition).
\<close>

lemma main_reads_diagnostic:
  "(dlopen pf None RTLD_LAZY = NULL \<longrightarrow> filter is_dlerror (snd (main pf)) = [])
   \<and> (dlopen pf None RTLD_LAZY \<noteq> NULL \<longrightarrow>
        snd (main pf) ! 4 = Dlerror (dlerror pf)
        \<and> filter is_dlerror (snd (main pf)) = [Dlerror (dlerror pf)])"
proof (cases "dlopen pf None RTLD_LAZY = NULL")
  case True
  then show ?thesis
    by (simp add: main_failure)
next
  case False
  then show ?thesis
    by (simp add: main_events [OF refl _ refl refl refl])
qed

text \<open>
  Claim C2: \<^verbatim>\<open>dlerror\<close> is called only in the error branch of a failed \<^verbatim>\<open>dlopen\<close> or
  \<^verbatim>\<open>dlsym\<close>, right after the failing call and before any other loader operation, and
  never on a success path.

  The program does not do this. On \<open>libc_present\<close> no loader call of the run fails, and
  the run calls \<^verbatim>\<open>dlerror\<close> all the same (line 25, as an argument of the \<open>printf\<close> call,
  where it hands a null \<^verbatim>\<open>char *\<close> to \<^verbatim>\<open>%s\<close>): \<open>diag_in_error_branch\<close> is false of the
  run.
\<close>

theorem dlerror_on_success_path:
  "filter failed (snd (main libc_present)) = []
   \<and> filter is_dlerror (snd (main libc_present)) = [Dlerror None]
   \<and> \<not> diag_in_error_branch False (snd (main libc_present))"
  by (simp add: main_def Let_def platforms)

section \<open>A null symbol is called\<close>

text \<open>
  Claim C3: a \<^verbatim>\<open>dlsym\<close> that does not find its symbol surfaces as an explicit error, and
  the program checks every \<^verbatim>\<open>dlsym\<close> result before it uses it.

  The program does not check. On \<open>libc_without ''printf''\<close> the second \<^verbatim>\<open>dlsym\<close> returns
  \<open>NULL\<close>; the run stores it, reads \<^verbatim>\<open>dlerror()\<close> and calls the null pointer at line 25.
\<close>

theorem null_symbol_called:
  "main (libc_without ''printf'') =
     (NullCall,
      [Dlopen None RTLD_LAZY (Addr 1),
       Dlsym (Addr 1) ''malloc'' (Addr 10),
       Dlsym (Addr 1) ''printf'' NULL,
       Dlsym (Addr 1) ''free'' (Addr 12),
       Dlerror (Some ''undefined symbol: printf''),
       Call NULL (Printf hello_format (Some ''undefined symbol: printf''))])"
  by (simp add: main_def Let_def platforms)

section \<open>A failed resolution stays in use\<close>

text \<open>
  Claim C4: a failed Open or Resolve leaves no half-built handle or symbol with the
  caller; every operation gives a valid value or signals an explicit failure, never both;
  and in the program a null result of \<^verbatim>\<open>dlopen\<close> leads at once to the error exit, with
  no further loader operation.

  The last part holds (\<open>main_failure\<close>). The program does not do the rest for a failed
  Resolve. On \<open>libc_without ''free''\<close> the third \<^verbatim>\<open>dlsym\<close> fails. The null pointer that
  reports the failure stays with the caller as the function pointer \<open>free\<close>; the run goes
  on as after a success, calls \<open>printf\<close> and \<open>malloc\<close>, and at line 28 calls the null
  pointer as if it were the symbol. No failure is signalled: the run does not end in an
  error exit.
\<close>

theorem failed_resolve_stays_in_use:
  "main (libc_without ''free'') =
     (NullCall,
      [Dlopen None RTLD_LAZY (Addr 1),
       Dlsym (Addr 1) ''malloc'' (Addr 10),
       Dlsym (Addr 1) ''printf'' (Addr 11),
       Dlsym (Addr 1) ''free'' NULL,
       Dlerror (Some ''undefined symbol: free''),
       Call (Addr 11) (Printf hello_format (Some ''undefined symbol: free'')),
       Call (Addr 10) (Malloc 3),
       Call NULL (Free (Addr 100))])
   \<and> resolve_results (snd (main (libc_without ''free''))) = [Addr 10, Addr 11, NULL]
   \<and> call_targets (snd (main (libc_without ''free''))) = [Addr 11, Addr 10, NULL]
   \<and> fst (main (libc_without ''free'')) \<noteq> Returned EXIT_FAILURE"
proof -
  have run: "main (libc_without ''free'') =
      (NullCall,
       [Dlopen None RTLD_LAZY (Addr 1),
        Dlsym (Addr 1) ''malloc'' (Addr 10),
        Dlsym (Addr 1) ''printf'' (Addr 11),
        Dlsym (Addr 1) ''free'' NULL,
        Dlerror (Some ''undefined symbol: free''),
        Call (Addr 11) (Printf hello_format (Some ''undefined symbol: free'')),
        Call (Addr 10) (Malloc 3),
        Call NULL (Free (Addr 100))])"
    by (simp add: main_def Let_def platforms)
  show ?thesis
    unfolding run by simp
qed

section \<open>A failed open\<close>

text \<open>When Open fails and when it returns a handle, by cases on what the installation
  holds at the target.\<close>

lemma Open_target_fails_iff:
  "(Open_target inst t m = Inl LoadError) =
     (cannot_be_found inst t \<or> not_a_shared_object inst t \<or> unresolved_under_eager inst t m)"
proof (cases "inst t")
  case None
  then show ?thesis
    by (simp add: Open_target_def cannot_be_found_def)
next
  case (Some f)
  then show ?thesis
    by (simp add: Open_target_def cannot_be_found_def not_a_shared_object_def
        unresolved_under_eager_def)
qed

lemma Open_target_handle:
  "Open_target inst t m = Inr h \<Longrightarrow>
   source h = t \<and> mode h = m
   \<and> (\<exists>f. inst t = Some f \<and> valid_shared_object f \<and> handle_token h = underlying f)"
  by (auto simp add: Open_target_def split: option.splits if_splits)

lemma load_error_only: "e = LoadError"
  by (cases e) simp

lemma dlopen_of_null_iff:
  "(dlopen_of inst path flag = NULL) =
     (Open_target inst (target_of path) (mode_of flag) = Inl LoadError)"
  by (cases "Open_target inst (target_of path) (mode_of flag)")
    (simp_all add: dlopen_of_def load_error_only)

text \<open>
  Claim C5: Open fails, returning no handle and signalling \<open>LoadError\<close>, exactly when the
  target cannot be found, is not a valid shared object for the platform, or has unresolved
  dependencies under \<open>EAGER\<close> mode; and in every execution of the program in which the Open
  of the self sentinel (the null path) fails, \<^verbatim>\<open>main\<close> returns \<open>EXIT_FAILURE\<close> and
  performs no Resolve, no call of a function pointer and no Close.

  The first half is about the platform's Open, and is stated of \<open>Open_target\<close>: for every
  installation, target and mode it fails exactly in the three cases, and a failure is
  not a handle. The second half is about \<^verbatim>\<open>main.c\<close>, and is stated twice: of every
  platform whose \<^verbatim>\<open>dlopen\<close> is this Open (with any \<^verbatim>\<open>dlsym\<close>, \<^verbatim>\<open>dlerror\<close> and called
  functions), and of every platform at all whose \<^verbatim>\<open>dlopen(NULL, RTLD_LAZY)\<close> returns no
  handle. In both the run is the \<^verbatim>\<open>dlopen\<close> event alone and ends with \<open>EXIT_FAILURE\<close>.
\<close>

theorem open_fails_exactly_when:
  "((Open_target inst t m = Inl LoadError) =
      (cannot_be_found inst t \<or> not_a_shared_object inst t \<or> unresolved_under_eager inst t m))
   \<and> ((\<exists>h. Open_target inst t m = Inr h) =
      (\<not> cannot_be_found inst t \<and> \<not> not_a_shared_object inst t
       \<and> \<not> unresolved_under_eager inst t m))
   \<and> (Open_target inst Self LAZY = Inl LoadError \<longrightarrow>
        main (pf\<lparr>dlopen := dlopen_of inst\<rparr>) =
          (Returned EXIT_FAILURE, [Dlopen None RTLD_LAZY NULL]))
   \<and> ((fst (main pf) = Returned EXIT_FAILURE) = (dlopen pf None RTLD_LAZY = NULL))
   \<and> (dlopen pf None RTLD_LAZY = NULL \<longrightarrow>
        opened_handles (snd (main pf)) = []
        \<and> filter is_dlsym (snd (main pf)) = []
        \<and> filter is_call (snd (main pf)) = []
        \<and> filter is_dlclose (snd (main pf)) = [])"
proof -
  have fails: "(Open_target inst t m = Inl LoadError) =
      (cannot_be_found inst t \<or> not_a_shared_object inst t \<or> unresolved_under_eager inst t m)"
    by (rule Open_target_fails_iff)
  have "(\<exists>h. Open_target inst t m = Inr h) = (Open_target inst t m \<noteq> Inl LoadError)"
    by (cases "Open_target inst t m") (simp_all add: load_error_only)
  with fails have returns: "(\<exists>h. Open_target inst t m = Inr h) =
      (\<not> cannot_be_found inst t \<and> \<not> not_a_shared_object inst t
       \<and> \<not> unresolved_under_eager inst t m)"
    by simp
  have self: "Open_target inst Self LAZY = Inl LoadError \<longrightarrow>
      main (pf\<lparr>dlopen := dlopen_of inst\<rparr>) =
        (Returned EXIT_FAILURE, [Dlopen None RTLD_LAZY NULL])"
  proof
    assume "Open_target inst Self LAZY = Inl LoadError"
    then have "dlopen (pf\<lparr>dlopen := dlopen_of inst\<rparr>) None RTLD_LAZY = NULL"
      by (simp add: dlopen_of_null_iff target_of_def mode_of_def)
    then show "main (pf\<lparr>dlopen := dlopen_of inst\<rparr>) =
        (Returned EXIT_FAILURE, [Dlopen None RTLD_LAZY NULL])"
      by (rule main_failure)
  qed
  have status: "(fst (main pf) = Returned EXIT_FAILURE) = (dlopen pf None RTLD_LAZY = NULL)"
  proof (cases "dlopen pf None RTLD_LAZY = NULL")
    case True
    then show ?thesis
      by (simp add: main_failure)
  next
    case False
    then show ?thesis
      by (simp add: main_outcome [OF refl])
  qed
  have no_more: "dlopen pf None RTLD_LAZY = NULL \<longrightarrow>
      opened_handles (snd (main pf)) = []
      \<and> filter is_dlsym (snd (main pf)) = []
      \<and> filter is_call (snd (main pf)) = []
      \<and> filter is_dlclose (snd (main pf)) = []"
    by (simp add: main_failure)
  from fails returns self status no_more show ?thesis
    by (intro conjI)
qed

theorem open_fails_exactly_when_witness:
  "Open_target installed (Path ''/no/such/library.so'') LAZY = Inl LoadError
   \<and> cannot_be_found installed (Path ''/no/such/library.so'')
   \<and> Open_target installed (Path ''README.md'') LAZY = Inl LoadError
   \<and> not_a_shared_object installed (Path ''README.md'')
   \<and> Open_target installed (Path ''./dynlib/libdynlib.so'') EAGER = Inl LoadError
   \<and> unresolved_under_eager installed (Path ''./dynlib/libdynlib.so'') EAGER
   \<and> Open_target installed (Path ''./dynlib/libdynlib.so'') LAZY =
       Inr \<lparr>handle_token = 2, source = Path ''./dynlib/libdynlib.so'', mode = LAZY\<rparr>
   \<and> Open_target no_self Self LAZY = Inl LoadError
   \<and> main (libc_present\<lparr>dlopen := dlopen_of no_self\<rparr>) =
       (Returned EXIT_FAILURE, [Dlopen None RTLD_LAZY NULL])
   \<and> fst (main (libc_present\<lparr>dlopen := dlopen_of installed\<rparr>)) = Returned EXIT_SUCCESS
   \<and> fst (main no_loader) = Returned EXIT_FAILURE
   \<and> filter is_dlsym (snd (main no_loader)) = []"
proof -
  have cases:
    "cannot_be_found installed (Path ''/no/such/library.so'')"
    "not_a_shared_object installed (Path ''README.md'')"
    "unresolved_under_eager installed (Path ''./dynlib/libdynlib.so'') EAGER"
    "cannot_be_found no_self Self"
    by (simp_all add: installed_def no_self_def cannot_be_found_def not_a_shared_object_def
        unresolved_under_eager_def)
  have lazy: "Open_target installed (Path ''./dynlib/libdynlib.so'') LAZY =
      Inr \<lparr>handle_token = 2, source = Path ''./dynlib/libdynlib.so'', mode = LAZY\<rparr>"
    by (simp add: Open_target_def installed_def)
  have opens: "fst (main (libc_present\<lparr>dlopen := dlopen_of installed\<rparr>)) = Returned EXIT_SUCCESS"
    by (simp add: main_def Let_def platforms dlopen_of_def Open_target_def installed_def
        target_of_def mode_of_def)
  have failing: "dlopen no_loader None RTLD_LAZY = NULL"
    by (simp add: platforms)
  show ?thesis
    using cases lazy opens failing
      open_fails_exactly_when [of installed "Path ''/no/such/library.so''" LAZY no_loader]
      open_fails_exactly_when [of installed "Path ''README.md''" LAZY no_loader]
      open_fails_exactly_when [of installed "Path ''./dynlib/libdynlib.so''" EAGER no_loader]
      open_fails_exactly_when [of no_self Self LAZY libc_present]
    by simp
qed

section \<open>Order of the operations on the handle\<close>

text \<open>
  Claim C7: Open completes before any Resolve against its handle, and every Resolve
  against a handle completes before the Close of that handle.

  For every platform and every handle \<open>h\<close>: each \<^verbatim>\<open>dlsym\<close> of the run that is made on \<open>h\<close>
  happens while \<open>h\<close> is \<open>Open\<close>, that is after the \<^verbatim>\<open>dlopen\<close> that returned \<open>h\<close> and before
  any release of \<open>h\<close>. (The calls of the program are synchronous: an event of the run is
  a completed call.)
\<close>

theorem resolve_after_open_before_close:
  "resolves_while_open h Unopened (snd (main pf))"
proof (cases "dlopen pf None RTLD_LAZY = NULL")
  case True
  then show ?thesis
    by (simp add: main_failure)
next
  case False
  then show ?thesis
    by (simp add: main_events [OF refl _ refl refl refl])
qed

theorem resolve_after_open_before_close_witness:
  "resolves_while_open (Addr 1) Unopened (snd (main libc_present))
   \<and> resolved_on (snd (main libc_present)) = [Addr 1, Addr 1, Addr 1]
   \<and> handle_state_after (Addr 1) (snd (main libc_present)) = Open"
  using resolve_after_open_before_close [of "Addr 1" libc_present]
  by (simp add: main_def Let_def platforms handle_state_after_def)

text \<open>
  Claim C8: no resolved symbol is called after its handle has been closed; every call of
  a resolved symbol happens while the handle is open.

  For every platform: at each call of a function pointer in the run, the pointer is the
  result of an earlier \<^verbatim>\<open>dlsym\<close>, and every handle it was resolved from is \<open>Open\<close> at that
  moment.
\<close>

theorem calls_only_while_open:
  "calls_while_open [] (snd (main pf))"
proof (cases "dlopen pf None RTLD_LAZY = NULL")
  case True
  then show ?thesis
    by (simp add: main_failure)
next
  case False
  then show ?thesis
    by (simp add: main_events [OF refl _ refl refl refl] owner_open_def handle_state_after_def)
qed

theorem calls_only_while_open_witness:
  "calls_while_open [] (snd (main libc_present))
   \<and> call_targets (snd (main libc_present)) = [Addr 11, Addr 10, Addr 12]"
  using calls_only_while_open [of libc_present]
  by (simp add: main_def Let_def platforms)

section \<open>The exit status\<close>

text \<open>
  Claim C9, as stated: \<^verbatim>\<open>main\<close> returns \<open>EXIT_SUCCESS\<close> in every execution in which
  \<^verbatim>\<open>dlopen\<close> succeeds, whether or not a \<^verbatim>\<open>dlsym\<close> returned null. It fails on
  \<open>libc_without ''free''\<close>: \<^verbatim>\<open>dlopen\<close> succeeds, \<^verbatim>\<open>dlsym\<close> returns null for \<^verbatim>\<open>free\<close>, and the
  run ends in the call of the null pointer at line 28, not in a return.
\<close>

theorem open_succeeds_without_exit_success:
  "dlopen (libc_without ''free'') None RTLD_LAZY = Addr 1
   \<and> dlsym (libc_without ''free'') (Addr 1) ''free'' = NULL
   \<and> fst (main (libc_without ''free'')) = NullCall"
  by (simp add: main_def Let_def platforms)

text \<open>
  Claim C9, amended: whenever \<^verbatim>\<open>main\<close> returns, its status is decided by the result of
  \<^verbatim>\<open>dlopen\<close> alone: \<open>EXIT_FAILURE\<close> if and only if \<^verbatim>\<open>dlopen\<close> returned a null handle,
  \<open>EXIT_SUCCESS\<close> only if it did not. \<^verbatim>\<open>main\<close> does return \<open>EXIT_FAILURE\<close> in every
  execution in which \<^verbatim>\<open>dlopen\<close> returns null, and does return \<open>EXIT_SUCCESS\<close> in every
  execution in which \<^verbatim>\<open>dlopen\<close> succeeds and the three \<^verbatim>\<open>dlsym\<close> results are non-null.
\<close>

theorem exit_status_from_open:
  "(dlopen pf None RTLD_LAZY = NULL \<longrightarrow> fst (main pf) = Returned EXIT_FAILURE)
   \<and> (fst (main pf) = Returned EXIT_FAILURE \<longrightarrow> dlopen pf None RTLD_LAZY = NULL)
   \<and> (fst (main pf) = Returned EXIT_SUCCESS \<longrightarrow> dlopen pf None RTLD_LAZY \<noteq> NULL)
   \<and> (dlopen pf None RTLD_LAZY \<noteq> NULL
        \<and> dlsym pf (dlopen pf None RTLD_LAZY) ''malloc'' \<noteq> NULL
        \<and> dlsym pf (dlopen pf None RTLD_LAZY) ''printf'' \<noteq> NULL
        \<and> dlsym pf (dlopen pf None RTLD_LAZY) ''free'' \<noteq> NULL \<longrightarrow>
      fst (main pf) = Returned EXIT_SUCCESS)"
proof (cases "dlopen pf None RTLD_LAZY = NULL")
  case True
  then show ?thesis
    by (simp add: main_failure)
next
  case False
  then show ?thesis
    by (simp add: main_outcome [OF refl])
qed

theorem exit_status_from_open_witness:
  "dlopen no_loader None RTLD_LAZY = NULL
   \<and> fst (main no_loader) = Returned EXIT_FAILURE
   \<and> dlopen libc_present None RTLD_LAZY \<noteq> NULL
   \<and> fst (main libc_present) = Returned EXIT_SUCCESS"
  using exit_status_from_open [of no_loader] exit_status_from_open [of libc_present]
  by (simp add: platforms)

section \<open>The function pointers that are called\<close>

text \<open>
  Claim C10: if all three \<^verbatim>\<open>dlsym\<close> calls return non-null addresses, every call through a
  function pointer (\<open>printf\<close> at line 25, \<open>malloc\<close> at line 26, \<open>free\<close> at line 28) calls a
  non-null pointer; the program has no null check between resolution and call, so this
  holds only under that condition.

  For every platform on which \<^verbatim>\<open>dlopen\<close> returns a handle \<open>h\<close>: all calls of the run are
  made through non-null pointers exactly when the three \<^verbatim>\<open>dlsym\<close> results are non-null;
  and then the calls are the three of lines 25, 26 and 28, each through the address that
  \<^verbatim>\<open>dlsym\<close> returned for its name.
\<close>

theorem calls_non_null_iff_resolved:
  "dlopen pf None RTLD_LAZY = h \<Longrightarrow> h \<noteq> NULL \<Longrightarrow>
   (list_all call_non_null (snd (main pf)) =
      (dlsym pf h ''malloc'' \<noteq> NULL \<and> dlsym pf h ''printf'' \<noteq> NULL
       \<and> dlsym pf h ''free'' \<noteq> NULL))
   \<and> (dlsym pf h ''malloc'' \<noteq> NULL \<and> dlsym pf h ''printf'' \<noteq> NULL
       \<and> dlsym pf h ''free'' \<noteq> NULL \<longrightarrow>
      filter is_call (snd (main pf)) =
        [Call (dlsym pf h ''printf'') (Printf hello_format (dlerror pf)),
         Call (dlsym pf h ''malloc'') (Malloc 3),
         Call (dlsym pf h ''free'') (Free (call_malloc pf (dlsym pf h ''malloc'') 3))])"
proof -
  assume opened: "dlopen pf None RTLD_LAZY = h" "h \<noteq> NULL"
  note run = main_events [OF opened refl refl refl]
  show ?thesis
    unfolding run by auto
qed

theorem calls_non_null_iff_resolved_witness:
  "dlopen libc_present None RTLD_LAZY = Addr 1
   \<and> list_all call_non_null (snd (main libc_present))
   \<and> filter is_call (snd (main libc_present)) =
       [Call (Addr 11) (Printf hello_format None),
        Call (Addr 10) (Malloc 3),
        Call (Addr 12) (Free (Addr 100))]
   \<and> \<not> list_all call_non_null (snd (main (libc_without ''malloc'')))"
  using calls_non_null_iff_resolved [of libc_present "Addr 1"]
    calls_non_null_iff_resolved [of "libc_without ''malloc''" "Addr 1"]
  by (simp add: platforms)

end
